theory Spec2Isabelle
  imports Main "HOL-Library.List_Lexorder" "HOL-Library.Word"
begin

section \<open>sentinel\_result (include/sentinel\_result.hpp)\<close>

text \<open>
  \<^verbatim>\<open>template <typename T, T sentinel = static_cast<T>(0), typename SuccessComp = std::equal_to<T>>
  class sentinel_result { T value_; ... }\<close>

  The class has the single field \<^verbatim>\<open>value_\<close> (\<open>value'\<close> here: a name cannot end with an
  underscore). The template parameters \<open>sentinel\<close> and \<open>SuccessComp\<close> are fixed per instantiation; in the embedding they are
  explicit arguments of the member functions, the comparison object \<open>SuccessComp{}\<close> being
  the binary predicate it computes.
\<close>

record 'a sentinel_result =
  value' :: 'a

text \<open>\<^verbatim>\<open>sentinel_result(const T value) : value_(value) {}\<close>\<close>

definition sentinel_result_ctor :: "'a \<Rightarrow> 'a sentinel_result" where
  "sentinel_result_ctor v = \<lparr>value' = v\<rparr>"

text \<open>\<^verbatim>\<open>value_type value() const { return value_; }\<close>\<close>

definition value_of :: "'a sentinel_result \<Rightarrow> 'a" where
  "value_of r = value' r"

text \<open>\<^verbatim>\<open>bool is_ok() const { return SuccessComp{}(value_, sentinel); }\<close>\<close>

definition is_ok :: "('a \<Rightarrow> 'a \<Rightarrow> bool) \<Rightarrow> 'a \<Rightarrow> 'a sentinel_result \<Rightarrow> bool" where
  "is_ok SuccessComp sentinel r = SuccessComp (value' r) sentinel"

text \<open>\<^verbatim>\<open>bool has_error() const { return !is_ok(); }\<close>\<close>

definition has_error :: "('a \<Rightarrow> 'a \<Rightarrow> bool) \<Rightarrow> 'a \<Rightarrow> 'a sentinel_result \<Rightarrow> bool" where
  "has_error SuccessComp sentinel r = (\<not> is_ok SuccessComp sentinel r)"

text \<open>
  The default template arguments: \<^verbatim>\<open>static_cast<T>(0)\<close> and \<^verbatim>\<open>std::equal_to<T>\<close>.
  \<^verbatim>\<open>std::not_equal_to<T>\<close> is the other comparison object the header's examples and the
  specification use.
\<close>

definition default_sentinel :: "'a::zero" where
  "default_sentinel = 0"

definition equal_to :: "'a \<Rightarrow> 'a \<Rightarrow> bool" where
  "equal_to x y = (x = y)"

definition not_equal_to :: "'a \<Rightarrow> 'a \<Rightarrow> bool" where
  "not_equal_to x y = (x \<noteq> y)"

text \<open>\<^verbatim>\<open>sentinel_result<T>\<close>: both defaults taken.\<close>

definition is_ok_default :: "'a::zero sentinel_result \<Rightarrow> bool" where
  "is_ok_default r = is_ok equal_to default_sentinel r"


section \<open>basic\_safe\_string (include/safe\_string.hpp)\<close>

subsection \<open>Memory, pointers and faults\<close>

text \<open>
  The class borrows a \<^verbatim>\<open>const Char*\<close>. Pointers are modelled as null or as an offset into
  an object: one of the caller's character arrays, identified by a number, or the empty
  string literal of the instantiation's character type (\<^verbatim>\<open>""\<close>, \<^verbatim>\<open>L""\<close>, \<^verbatim>\<open>u8""\<close>, \<^verbatim>\<open>u""\<close>,
  \<^verbatim>\<open>U""\<close>), an array of one element holding \<^verbatim>\<open>Char{}\<close>. Memory maps the numbers of the live
  caller arrays to their contents. Reading through the null pointer or outside an object
  is undefined behaviour in C++; in the embedding it is a \<open>fault\<close> value, so that every
  dereference the code performs is a branch that can be observed. The third fault,
  \<open>Ill_Formed\<close>, is not an event of a run: it stands for a member function whose body is
  rejected when the function is instantiated, so that no program obtains a value from it.
\<close>

datatype region = Empty_Literal | Buffer nat

datatype pointer = Null | Ptr region nat

datatype fault = Null_Dereference | Out_Of_Bounds | Ill_Formed

type_synonym 'c memory = "nat \<rightharpoonup> 'c list"

fun object_at :: "'c::zero memory \<Rightarrow> region \<Rightarrow> 'c list option" where
  "object_at m Empty_Literal = Some [0]"
| "object_at m (Buffer b) = m b"

fun load :: "'c::zero memory \<Rightarrow> pointer \<Rightarrow> fault + 'c" where
  "load m Null = Inl Null_Dereference"
| "load m (Ptr r i) =
     (case object_at m r of
        None \<Rightarrow> Inl Out_Of_Bounds
      | Some cs \<Rightarrow> if i < length cs then Inr (cs ! i) else Inl Out_Of_Bounds)"

fun ptr_add :: "pointer \<Rightarrow> nat \<Rightarrow> pointer" where
  "ptr_add Null n = Null"
| "ptr_add (Ptr r i) n = Ptr r (i + n)"

text \<open>Number of elements from the pointer to the end of its object (termination measure).\<close>

fun elements_left :: "'c::zero memory \<Rightarrow> pointer \<Rightarrow> nat" where
  "elements_left m Null = 0"
| "elements_left m (Ptr r i) = (case object_at m r of None \<Rightarrow> 0 | Some cs \<Rightarrow> length cs - i)"

subsection \<open>The character type parameter\<close>

text \<open>
  \<open>empty_string\<close> branches on \<^verbatim>\<open>std::is_same_v<Char, ...>\<close>. The embedding carries the
  outcome of these tests as a tag beside the type variable of the characters:
  the five built-in character types and \<open>CT_other\<close> for every other \<^verbatim>\<open>Char\<close>. The
  \<^verbatim>\<open>char8_t\<close> branch is compiled under \<^verbatim>\<open>__cpp_char8_t\<close>, the macro that says that the built-in
  type \<^verbatim>\<open>char8_t\<close> exists, so an instantiation tagged \<open>CT_char8_t\<close> always has the branch.
\<close>

datatype char_type = CT_char | CT_wchar_t | CT_char8_t | CT_char16_t | CT_char32_t | CT_other

record basic_safe_string =
  ptr :: pointer

text \<open>\<^verbatim>\<open>static constexpr const Char* empty_string()\<close>\<close>

definition empty_string :: "char_type \<Rightarrow> pointer" where
  "empty_string k =
     (if k = CT_char then Ptr Empty_Literal 0
      else if k = CT_wchar_t then Ptr Empty_Literal 0
      else if k = CT_char8_t then Ptr Empty_Literal 0
      else if k = CT_char16_t then Ptr Empty_Literal 0
      else if k = CT_char32_t then Ptr Empty_Literal 0
      else Null)"

text \<open>\<^verbatim>\<open>basic_safe_string() : ptr(nullptr) {}\<close> and \<^verbatim>\<open>basic_safe_string(const Char* src) : ptr(src) {}\<close>\<close>

definition default_ctor :: basic_safe_string where
  "default_ctor = \<lparr>ptr = Null\<rparr>"

definition from_pointer :: "pointer \<Rightarrow> basic_safe_string" where
  "from_pointer src = \<lparr>ptr = src\<rparr>"

text \<open>\<^verbatim>\<open>bool is_null() const {return !ptr;}\<close>, \<^verbatim>\<open>operator bool() const {return ptr != nullptr;}\<close>,
  \<^verbatim>\<open>const Char* c_str() const {return ptr ? ptr : empty_string();}\<close>\<close>

definition is_null :: "basic_safe_string \<Rightarrow> bool" where
  "is_null s = (ptr s = Null)"

definition operator_bool :: "basic_safe_string \<Rightarrow> bool" where
  "operator_bool s = (ptr s \<noteq> Null)"

definition c_str :: "char_type \<Rightarrow> basic_safe_string \<Rightarrow> pointer" where
  "c_str k s = (if ptr s \<noteq> Null then ptr s else empty_string k)"

text \<open>
  The private \<^verbatim>\<open>length()\<close>:
  \<^verbatim>\<open>const Char* s = c_str(); std::size_t len = 0; while (s[len] != Char{}) ++len; return len;\<close>
  The loop ends at the first terminator or at the first faulting read. The counter is a
  natural number: an object has fewer than \<^verbatim>\<open>SIZE_MAX\<close> elements, so \<^verbatim>\<open>++len\<close> does not wrap
  before the scan leaves the object.
\<close>

function length_loop :: "'c::zero memory \<Rightarrow> pointer \<Rightarrow> nat \<Rightarrow> fault + nat" where
  "length_loop m s len =
     (case load m (ptr_add s len) of
        Inl f \<Rightarrow> Inl f
      | Inr c \<Rightarrow> if c \<noteq> 0 then length_loop m s (Suc len) else Inr len)"
  by pat_completeness auto
termination
  apply (relation "measure (\<lambda>(m, s, len). elements_left m s - len)")
   apply simp
  subgoal for m s len c
    by (cases s) (auto split: option.splits if_splits)
  done

definition length_str :: "char_type \<Rightarrow> 'c::zero memory \<Rightarrow> basic_safe_string \<Rightarrow> fault + nat" where
  "length_str k m s = length_loop m (c_str k s) 0"


subsection \<open>The standard library operations the class calls\<close>

text \<open>
  \<^verbatim>\<open>string()\<close>, \<^verbatim>\<open>view()\<close> and the comparison operators hand \<^verbatim>\<open>c_str()\<close> to
  \<^verbatim>\<open>std::basic_string\<close> and \<^verbatim>\<open>std::basic_string_view\<close>. These are modelled from the C++
  standard: both constructors from \<^verbatim>\<open>const CharT*\<close> take the range
  \<^verbatim>\<open>[s, s + traits::length(s))\<close>, where \<^verbatim>\<open>traits::length(s)\<close> is the smallest \<open>i\<close> with
  \<^verbatim>\<open>s[i] == CharT()\<close> (the same scan as the private \<^verbatim>\<open>length()\<close>, and as undefined on the
  null pointer); the string copies the range, the view keeps pointer and length.
  \<^verbatim>\<open>basic_string_view::compare\<close> compares the first \<open>min\<close> of the two sizes characters with
  \<^verbatim>\<open>traits::compare\<close> and then the sizes; only the sign of its result is specified.
  The order of the characters is the order of the type \<open>'c\<close>.
\<close>

definition char_traits_length :: "'c::zero memory \<Rightarrow> pointer \<Rightarrow> fault + nat" where
  "char_traits_length m s = length_loop m s 0"

fun read_n :: "'c::zero memory \<Rightarrow> pointer \<Rightarrow> nat \<Rightarrow> fault + 'c list" where
  "read_n m p 0 = Inr []"
| "read_n m p (Suc n) =
     (case load m p of
        Inl f \<Rightarrow> Inl f
      | Inr c \<Rightarrow> (case read_n m (ptr_add p 1) n of
                   Inl f \<Rightarrow> Inl f
                 | Inr cs \<Rightarrow> Inr (c # cs)))"

definition basic_string_from :: "'c::zero memory \<Rightarrow> pointer \<Rightarrow> fault + 'c list" where
  "basic_string_from m s =
     (case char_traits_length m s of Inl f \<Rightarrow> Inl f | Inr n \<Rightarrow> read_n m s n)"

record basic_string_view =
  sv_data :: pointer
  sv_size :: nat

definition basic_string_view_from :: "'c::zero memory \<Rightarrow> pointer \<Rightarrow> fault + basic_string_view" where
  "basic_string_view_from m s =
     (case char_traits_length m s of
        Inl f \<Rightarrow> Inl f
      | Inr n \<Rightarrow> Inr \<lparr>sv_data = s, sv_size = n\<rparr>)"

fun traits_compare :: "'c::linorder list \<Rightarrow> 'c list \<Rightarrow> int" where
  "traits_compare (x # xs) (y # ys) =
     (if x < y then - 1 else if y < x then 1 else traits_compare xs ys)"
| "traits_compare xs ys = 0"

definition compare_chars :: "'c::linorder list \<Rightarrow> nat \<Rightarrow> 'c list \<Rightarrow> nat \<Rightarrow> int" where
  "compare_chars xs size_x ys size_y =
     (let r = traits_compare xs ys
      in if r \<noteq> 0 then r
         else if size_x < size_y then - 1
         else if size_x = size_y then 0
         else 1)"

definition sv_compare ::
  "('c::{zero,linorder}) memory \<Rightarrow> basic_string_view \<Rightarrow> basic_string_view \<Rightarrow> fault + int" where
  "sv_compare m x y =
     (let rlen = min (sv_size x) (sv_size y)
      in case read_n m (sv_data x) rlen of
           Inl f \<Rightarrow> Inl f
         | Inr xs \<Rightarrow>
             (case read_n m (sv_data y) rlen of
                Inl f \<Rightarrow> Inl f
              | Inr ys \<Rightarrow> Inr (compare_chars xs (sv_size x) ys (sv_size y))))"

text \<open>\<^verbatim>\<open>operator==\<close> of two views: \<^verbatim>\<open>x.size() == y.size() && x.compare(y) == 0\<close>.\<close>

definition sv_equal ::
  "('c::{zero,linorder}) memory \<Rightarrow> basic_string_view \<Rightarrow> basic_string_view \<Rightarrow> fault + bool" where
  "sv_equal m x y =
     (if sv_size x = sv_size y
      then (case sv_compare m x y of Inl f \<Rightarrow> Inl f | Inr r \<Rightarrow> Inr (r = 0))
      else Inr False)"

text \<open>\<^verbatim>\<open>operator<=>\<close> of two views: the comparison category value of \<^verbatim>\<open>x.compare(y)\<close>.\<close>

datatype strong_ordering = SO_less | SO_equal | SO_greater

definition ordering_of :: "int \<Rightarrow> strong_ordering" where
  "ordering_of r = (if r < 0 then SO_less else if r = 0 then SO_equal else SO_greater)"

definition sv_three_way ::
  "('c::{zero,linorder}) memory \<Rightarrow> basic_string_view \<Rightarrow> basic_string_view \<Rightarrow> fault + strong_ordering" where
  "sv_three_way m x y =
     (case sv_compare m x y of Inl f \<Rightarrow> Inl f | Inr r \<Rightarrow> Inr (ordering_of r))"

subsection \<open>Conversions, comparison and iteration\<close>

text \<open>\<^verbatim>\<open>std::basic_string<Char> string() const {return c_str();}\<close> and
  \<^verbatim>\<open>std::basic_string_view<Char> view() const {return c_str();}\<close>\<close>

definition string :: "char_type \<Rightarrow> 'c::zero memory \<Rightarrow> basic_safe_string \<Rightarrow> fault + 'c list" where
  "string k m s = basic_string_from m (c_str k s)"

definition view :: "char_type \<Rightarrow> 'c::zero memory \<Rightarrow> basic_safe_string \<Rightarrow> fault + basic_string_view" where
  "view k m s = basic_string_view_from m (c_str k s)"

text \<open>
  Every comparison operator evaluates \<^verbatim>\<open>view()\<close> and \<^verbatim>\<open>other.view()\<close> and applies an operation
  of the two views to them.
\<close>

definition with_views ::
  "char_type \<Rightarrow> 'c::zero memory \<Rightarrow> basic_safe_string \<Rightarrow> basic_safe_string \<Rightarrow>
   (basic_string_view \<Rightarrow> basic_string_view \<Rightarrow> fault + 'r) \<Rightarrow> fault + 'r" where
  "with_views k m a b f =
     (case view k m a of
        Inl e \<Rightarrow> Inl e
      | Inr x \<Rightarrow> (case view k m b of Inl e \<Rightarrow> Inl e | Inr y \<Rightarrow> f x y))"

definition with_compare ::
  "char_type \<Rightarrow> ('c::{zero,linorder}) memory \<Rightarrow> basic_safe_string \<Rightarrow> basic_safe_string \<Rightarrow>
   (int \<Rightarrow> bool) \<Rightarrow> fault + bool" where
  "with_compare k m a b test =
     with_views k m a b
       (\<lambda>x y. case sv_compare m x y of Inl e \<Rightarrow> Inl e | Inr r \<Rightarrow> Inr (test r))"

text \<open>Under \<^verbatim>\<open>__cpp_lib_three_way_comparison\<close>: \<^verbatim>\<open>return view() <=> other.view();\<close>\<close>

definition operator_three_way ::
  "char_type \<Rightarrow> ('c::{zero,linorder}) memory \<Rightarrow> basic_safe_string \<Rightarrow> basic_safe_string \<Rightarrow>
   fault + strong_ordering" where
  "operator_three_way k m a b = with_views k m a b (sv_three_way m)"

text \<open>
  Otherwise the six operators: \<^verbatim>\<open>view() == other.view()\<close>, \<^verbatim>\<open>!(*this == other)\<close>, and
  \<^verbatim>\<open>view().compare(other.view())\<close> tested \<^verbatim>\<open>< 0\<close>, \<^verbatim>\<open><= 0\<close>, \<^verbatim>\<open>> 0\<close>, \<^verbatim>\<open>>= 0\<close>.
\<close>

definition operator_eq ::
  "char_type \<Rightarrow> ('c::{zero,linorder}) memory \<Rightarrow> basic_safe_string \<Rightarrow> basic_safe_string \<Rightarrow> fault + bool" where
  "operator_eq k m a b = with_views k m a b (sv_equal m)"

definition operator_ne ::
  "char_type \<Rightarrow> ('c::{zero,linorder}) memory \<Rightarrow> basic_safe_string \<Rightarrow> basic_safe_string \<Rightarrow> fault + bool" where
  "operator_ne k m a b =
     (case operator_eq k m a b of Inl e \<Rightarrow> Inl e | Inr r \<Rightarrow> Inr (\<not> r))"

definition operator_lt ::
  "char_type \<Rightarrow> ('c::{zero,linorder}) memory \<Rightarrow> basic_safe_string \<Rightarrow> basic_safe_string \<Rightarrow> fault + bool" where
  "operator_lt k m a b = with_compare k m a b (\<lambda>r. r < 0)"

definition operator_le ::
  "char_type \<Rightarrow> ('c::{zero,linorder}) memory \<Rightarrow> basic_safe_string \<Rightarrow> basic_safe_string \<Rightarrow> fault + bool" where
  "operator_le k m a b = with_compare k m a b (\<lambda>r. r \<le> 0)"

definition operator_gt ::
  "char_type \<Rightarrow> ('c::{zero,linorder}) memory \<Rightarrow> basic_safe_string \<Rightarrow> basic_safe_string \<Rightarrow> fault + bool" where
  "operator_gt k m a b = with_compare k m a b (\<lambda>r. r > 0)"

definition operator_ge ::
  "char_type \<Rightarrow> ('c::{zero,linorder}) memory \<Rightarrow> basic_safe_string \<Rightarrow> basic_safe_string \<Rightarrow> fault + bool" where
  "operator_ge k m a b = with_compare k m a b (\<lambda>r. r \<ge> 0)"

text \<open>
  Const qualification of the member functions. \<^verbatim>\<open>length()\<close> is declared
  \<^verbatim>\<open>constexpr std::size_t length()\<close>, with no \<^verbatim>\<open>const\<close> (since C++14 \<^verbatim>\<open>constexpr\<close> does not imply
  it, and the header needs C++17 for \<^verbatim>\<open>if constexpr\<close>); \<^verbatim>\<open>c_str()\<close>, \<^verbatim>\<open>begin()\<close> and \<^verbatim>\<open>end()\<close>
  are \<^verbatim>\<open>const\<close>. Inside a \<^verbatim>\<open>const\<close> member function \<^verbatim>\<open>*this\<close> is \<^verbatim>\<open>const\<close>, and a member
  function that is not \<^verbatim>\<open>const\<close> is not viable for it: the call is ill-formed.
\<close>

datatype cv_qualifier = Const_Qualified | Not_Const_Qualified

definition length_cv :: cv_qualifier where
  "length_cv = Not_Const_Qualified"

definition c_str_cv :: cv_qualifier where
  "c_str_cv = Const_Qualified"

definition end_cv :: cv_qualifier where
  "end_cv = Const_Qualified"

definition member_viable :: "cv_qualifier \<Rightarrow> cv_qualifier \<Rightarrow> bool" where
  "member_viable caller callee = (callee = Const_Qualified \<or> caller = Not_Const_Qualified)"

text \<open>
  \<^verbatim>\<open>const_iterator begin() const noexcept { return c_str(); }\<close> and
  \<^verbatim>\<open>const_iterator end() const noexcept { return c_str() + length(); }\<close>. The body of
  \<^verbatim>\<open>end()\<close> would run the scan of \<^verbatim>\<open>length()\<close> at every call (nothing is stored in the
  object), if its two member calls are viable.
\<close>

definition begin_it :: "char_type \<Rightarrow> basic_safe_string \<Rightarrow> pointer" where
  "begin_it k s = c_str k s"

definition end_it :: "char_type \<Rightarrow> 'c::zero memory \<Rightarrow> basic_safe_string \<Rightarrow> fault + pointer" where
  "end_it k m s =
     (if member_viable end_cv c_str_cv \<and> member_viable end_cv length_cv
      then (case length_str k m s of
              Inl f \<Rightarrow> Inl f
            | Inr n \<Rightarrow> Inr (ptr_add (c_str k s) n))
      else Inl Ill_Formed)"

text \<open>
  Iteration over the iterator pair, as a range-based \<^verbatim>\<open>for\<close> or any
  \<^verbatim>\<open>for (it = begin(); it != end; ++it) use(*it);\<close> does it: the characters read, in order.
\<close>

function range_loop :: "'c::zero memory \<Rightarrow> pointer \<Rightarrow> pointer \<Rightarrow> fault + 'c list" where
  "range_loop m it e =
     (if it = e then Inr []
      else (case load m it of
              Inl f \<Rightarrow> Inl f
            | Inr c \<Rightarrow> (case range_loop m (ptr_add it 1) e of
                         Inl f \<Rightarrow> Inl f
                       | Inr cs \<Rightarrow> Inr (c # cs))))"
  by pat_completeness auto
termination
  by (relation "measure (\<lambda>(m, it, e). elements_left m it)")
     (auto split: option.splits if_splits pointer.splits elim!: load.elims)

definition iterate :: "char_type \<Rightarrow> 'c::zero memory \<Rightarrow> basic_safe_string \<Rightarrow> fault + 'c list" where
  "iterate k m s =
     (case end_it k m s of Inl f \<Rightarrow> Inl f | Inr e \<Rightarrow> range_loop m (begin_it k s) e)"


subsection \<open>Vocabulary of the statements\<close>

text \<open>
  \<open>cstring_at m p xs\<close>: the pointer \<open>p\<close> points into a live object at a null-terminated
  character sequence whose characters before the first terminator are \<open>xs\<close> (what the
  specification calls a valid null-terminated buffer).
  \<open>completes\<close>: an operation returned a value, no fault.
\<close>

definition cstring_at :: "'c::zero memory \<Rightarrow> pointer \<Rightarrow> 'c list \<Rightarrow> bool" where
  "cstring_at m p xs =
     (case p of
        Null \<Rightarrow> False
      | Ptr r i \<Rightarrow>
          (case object_at m r of
             None \<Rightarrow> False
           | Some cs \<Rightarrow> i + length xs < length cs \<and> take (length xs) (drop i cs) = xs
                        \<and> 0 \<notin> set xs \<and> cs ! (i + length xs) = 0))"

definition completes :: "fault + 'a \<Rightarrow> bool" where
  "completes r = (case r of Inl f \<Rightarrow> False | Inr v \<Rightarrow> True)"

declare length_loop.simps [simp del] range_loop.simps [simp del]


section \<open>Properties of sentinel\_result\<close>

text \<open>
  C1. \<open>is_ok()\<close> is the configured comparison applied to the held value and the configured
  sentinel, for every predicate, sentinel and value. With sentinel 0 and the default
  \<open>equal_to\<close>, wrapping 0 is ok and wrapping 5 is not, and \<open>value()\<close> is then 5; with
  sentinel 0 and \<open>not_equal_to\<close>, wrapping 0 is not ok and wrapping 5 is. The numerals
  are stated at a 32-bit element type (\<^verbatim>\<open>int\<close>, \<^verbatim>\<open>HRESULT\<close>).
\<close>

theorem is_ok_applies_predicate:
  "is_ok SuccessComp sentinel (sentinel_result_ctor v) = SuccessComp v sentinel
   \<and> is_ok equal_to 0 (sentinel_result_ctor (0 :: 32 word))
   \<and> \<not> is_ok equal_to 0 (sentinel_result_ctor (5 :: 32 word))
   \<and> value_of (sentinel_result_ctor (5 :: 32 word)) = 5
   \<and> \<not> is_ok not_equal_to 0 (sentinel_result_ctor (0 :: 32 word))
   \<and> is_ok not_equal_to 0 (sentinel_result_ctor (5 :: 32 word))"
  by (simp add: is_ok_def sentinel_result_ctor_def value_of_def equal_to_def not_equal_to_def)

text \<open>
  C7. For every element type, sentinel, comparison predicate and wrapped value,
  \<open>has_error()\<close> is the negation of \<open>is_ok()\<close>.
\<close>

theorem has_error_negates_is_ok:
  "has_error SuccessComp sentinel r = (\<not> is_ok SuccessComp sentinel r)"
  by (simp add: has_error_def)

text \<open>
  C8. With only the element type given, the sentinel is the zero of the type and the
  predicate is equality: \<open>is_ok()\<close> holds exactly when the wrapped value is zero.
\<close>

theorem default_is_ok_iff_zero:
  "default_sentinel = (0 :: 'a :: zero)
   \<and> is_ok_default (sentinel_result_ctor (v :: 'a)) = is_ok equal_to 0 (sentinel_result_ctor v)
   \<and> is_ok_default (sentinel_result_ctor v) = (v = 0)"
  by (simp add: is_ok_default_def default_sentinel_def is_ok_def equal_to_def
      sentinel_result_ctor_def)


section \<open>Scanning, reading and comparing null-terminated sequences\<close>

lemma cstring_at_Nil: "cstring_at m p [] \<Longrightarrow> load m p = Inr 0"
  by (auto simp: cstring_at_def split: pointer.splits option.splits)

lemma cstring_at_Cons:
  assumes "cstring_at m p (x # xs)"
  shows "load m p = Inr x" and "x \<noteq> 0" and "cstring_at m (ptr_add p 1) xs"
proof -
  from assms obtain r i cs where p: "p = Ptr r i" and o: "object_at m r = Some cs"
    and len: "i + Suc (length xs) < length cs"
    and tk: "take (Suc (length xs)) (drop i cs) = x # xs"
    and nz: "0 \<notin> set (x # xs)" and z: "cs ! (i + Suc (length xs)) = 0"
    by (auto simp: cstring_at_def split: pointer.splits option.splits)
  from len have i: "i < length cs" by simp
  then have d: "drop i cs = cs ! i # drop (Suc i) cs"
    by (simp add: Cons_nth_drop_Suc)
  with tk have hd: "cs ! i = x" and tl: "take (length xs) (drop (Suc i) cs) = xs"
    by simp_all
  show "load m p = Inr x" using p o i hd by simp
  show "x \<noteq> 0" using nz by auto
  show "cstring_at m (ptr_add p 1) xs"
    using p o len tl nz z by (simp add: cstring_at_def)
qed

lemma ptr_add_add: "ptr_add (ptr_add p a) b = ptr_add p (a + b)"
  by (cases p) simp_all

lemma ptr_add_0: "ptr_add p 0 = p"
  by (cases p) simp_all

lemma length_loop_cstring:
  "cstring_at m (ptr_add p len) xs \<Longrightarrow> length_loop m p len = Inr (len + length xs)"
proof (induction xs arbitrary: len)
  case Nil
  then show ?case by (subst length_loop.simps) (simp add: cstring_at_Nil)
next
  case (Cons x xs)
  from cstring_at_Cons[OF Cons.prems]
  have l: "load m (ptr_add p len) = Inr x" and x: "x \<noteq> 0"
    and t: "cstring_at m (ptr_add p (Suc len)) xs"
    by (simp_all add: ptr_add_add)
  from Cons.IH[OF t] l x show ?case by (subst length_loop.simps) simp
qed

lemma read_n_cstring:
  "cstring_at m p xs \<Longrightarrow> n \<le> length xs \<Longrightarrow> read_n m p n = Inr (take n xs)"
proof (induction n arbitrary: p xs)
  case 0
  then show ?case by simp
next
  case (Suc n)
  then obtain y ys where xs: "xs = y # ys" by (cases xs) auto
  from cstring_at_Cons[OF Suc.prems(1)[unfolded xs]] Suc.prems(2) xs Suc.IH[of "ptr_add p 1" ys]
  show ?case by simp
qed

lemma compare_chars_order:
  "(compare_chars (take (min (length xs) (length ys)) xs) (length xs)
                  (take (min (length xs) (length ys)) ys) (length ys) < 0 \<longleftrightarrow> xs < ys)
   \<and> (compare_chars (take (min (length xs) (length ys)) xs) (length xs)
                  (take (min (length xs) (length ys)) ys) (length ys) = 0 \<longleftrightarrow> xs = ys)"
proof (induction xs ys rule: list_induct2')
  case 1
  show ?case by (simp add: compare_chars_def)
next
  case (2 x xs)
  show ?case by (simp add: compare_chars_def)
next
  case (3 y ys)
  show ?case by (simp add: compare_chars_def)
next
  case (4 x xs y ys)
  then show ?case by (auto simp: compare_chars_def Let_def)
qed

lemma string_cstring: "cstring_at m (c_str k s) xs \<Longrightarrow> string k m s = Inr xs"
  using length_loop_cstring[of m "c_str k s" 0 xs] read_n_cstring[of m "c_str k s" xs "length xs"]
  by (simp add: string_def basic_string_from_def char_traits_length_def ptr_add_0)

lemma view_cstring:
  "cstring_at m (c_str k s) xs \<Longrightarrow> view k m s = Inr \<lparr>sv_data = c_str k s, sv_size = length xs\<rparr>"
  using length_loop_cstring[of m "c_str k s" 0 xs]
  by (simp add: view_def basic_string_view_from_def char_traits_length_def ptr_add_0)

lemma sv_compare_cstring:
  assumes "cstring_at m p xs" and "cstring_at m q ys"
  shows "sv_compare m \<lparr>sv_data = p, sv_size = length xs\<rparr> \<lparr>sv_data = q, sv_size = length ys\<rparr>
         = Inr (compare_chars (take (min (length xs) (length ys)) xs) (length xs)
                              (take (min (length xs) (length ys)) ys) (length ys))"
  using read_n_cstring[OF assms(1), of "min (length xs) (length ys)"]
        read_n_cstring[OF assms(2), of "min (length xs) (length ys)"]
  by (simp add: sv_compare_def Let_def)

lemma with_compare_cstring:
  assumes "cstring_at m (c_str k a) xs" and "cstring_at m (c_str k b) ys"
  shows "with_compare k m a b t
         = Inr (t (compare_chars (take (min (length xs) (length ys)) xs) (length xs)
                                 (take (min (length xs) (length ys)) ys) (length ys)))"
  by (simp add: with_compare_def with_views_def view_cstring[OF assms(1)] view_cstring[OF assms(2)]
      sv_compare_cstring[OF assms])

lemma compare_chars_cases:
  fixes xs ys :: "'c::linorder list"
  defines "c \<equiv> compare_chars (take (min (length xs) (length ys)) xs) (length xs)
                              (take (min (length xs) (length ys)) ys) (length ys)"
  shows "(c < 0) = (xs < ys)" and "(c = 0) = (xs = ys)" and "(c \<le> 0) = (xs \<le> ys)"
    and "(0 < c) = (ys < xs)" and "(0 \<le> c) = (ys \<le> xs)"
proof -
  show lt: "(c < 0) = (xs < ys)" and eq: "(c = 0) = (xs = ys)"
    using compare_chars_order[of xs ys] by (simp_all add: c_def)
  show "(c \<le> 0) = (xs \<le> ys)" using lt eq by (auto simp: order.order_iff_strict)
  show gt: "(0 < c) = (ys < xs)" using lt eq by (metis linorder_less_linear order_less_asym)
  show "(0 \<le> c) = (ys \<le> xs)" using gt eq by (auto simp: order.order_iff_strict)
qed

lemma operators_cstring:
  fixes xs ys :: "'c::{zero,linorder} list"
  assumes "cstring_at m (c_str k a) xs" and "cstring_at m (c_str k b) ys"
  shows "operator_lt k m a b = Inr (xs < ys)"
    and "operator_le k m a b = Inr (xs \<le> ys)"
    and "operator_gt k m a b = Inr (ys < xs)"
    and "operator_ge k m a b = Inr (ys \<le> xs)"
    and "operator_eq k m a b = Inr (xs = ys)"
    and "operator_ne k m a b = Inr (xs \<noteq> ys)"
    and "operator_three_way k m a b
         = Inr (if xs < ys then SO_less else if xs = ys then SO_equal else SO_greater)"
proof -
  note c = compare_chars_cases[of xs ys]
  show "operator_lt k m a b = Inr (xs < ys)"
    by (simp add: operator_lt_def with_compare_cstring[OF assms] c)
  show "operator_le k m a b = Inr (xs \<le> ys)"
    by (simp add: operator_le_def with_compare_cstring[OF assms] c)
  show "operator_gt k m a b = Inr (ys < xs)"
    by (simp add: operator_gt_def with_compare_cstring[OF assms] c)
  show "operator_ge k m a b = Inr (ys \<le> xs)"
    by (simp add: operator_ge_def with_compare_cstring[OF assms] c)
  have "sv_equal m \<lparr>sv_data = c_str k a, sv_size = length xs\<rparr>
                   \<lparr>sv_data = c_str k b, sv_size = length ys\<rparr> = Inr (xs = ys)"
    unfolding sv_equal_def sv_compare_cstring[OF assms] using c(2) by auto
  then show eq: "operator_eq k m a b = Inr (xs = ys)"
    by (simp add: operator_eq_def with_views_def view_cstring[OF assms(1)]
        view_cstring[OF assms(2)])
  show "operator_ne k m a b = Inr (xs \<noteq> ys)"
    by (simp add: operator_ne_def eq)
  show "operator_three_way k m a b
         = Inr (if xs < ys then SO_less else if xs = ys then SO_equal else SO_greater)"
    by (simp add: operator_three_way_def with_views_def view_cstring[OF assms(1)]
        view_cstring[OF assms(2)] sv_three_way_def sv_compare_cstring[OF assms] ordering_of_def c)
qed

lemma buffer_cstring_at:
  assumes "m b = Some cs" and "i + n < length cs" and "cs ! (i + n) = 0"
    and "0 \<notin> set (take n (drop i cs))"
  shows "cstring_at m (Ptr (Buffer b) i) (take n (drop i cs))"
  using assms by (simp add: cstring_at_def min_absorb2)


section \<open>Properties of basic\_safe\_string\<close>

text \<open>
  Two defects of the header decide most statements of this section.

  \<^item> For a character type other than the five built-in ones \<open>empty_string\<close> returns the
    null pointer, so \<^verbatim>\<open>c_str()\<close> of a view with an absent reference is null, and \<^verbatim>\<open>string()\<close>,
    \<^verbatim>\<open>view()\<close> and the comparison operators scan from it. The comment above the class says
    that null pointers are treated as empty strings, and the five other branches of
    \<open>empty_string\<close> do that.
  \<^item> \<^verbatim>\<open>end()\<close> is a \<^verbatim>\<open>const\<close> member function and calls \<^verbatim>\<open>length()\<close>, which is not: the call is
    ill-formed, for every character type and every view.

  The views below are over 8-bit characters; with the tag \<open>CT_other\<close> the character type is
  \<^verbatim>\<open>unsigned char\<close>, with \<open>CT_char\<close> it is \<^verbatim>\<open>char\<close>.
\<close>

subsection \<open>Completion of the read operations\<close>

text \<open>
  C2. No operation of the view can fail: for every character type, supported or not,
  and every view, the default-constructed one included, every read operation completes
  normally and dereferences no null pointer.

  The code does not keep this. For the default-constructed view of \<^verbatim>\<open>unsigned char\<close>,
  \<^verbatim>\<open>c_str()\<close> is null and \<^verbatim>\<open>view()\<close> hands it to the \<^verbatim>\<open>basic_string_view\<close> constructor, whose
  scan reads through it; \<^verbatim>\<open>string()\<close> and the comparisons do not complete either, and
  \<^verbatim>\<open>end()\<close> is ill-formed. The same view of \<^verbatim>\<open>char\<close> gives the empty \<^verbatim>\<open>basic_string_view\<close>.
\<close>

theorem view_of_absent_other_faults:
  "is_null default_ctor
   \<and> c_str CT_other default_ctor = Null
   \<and> view CT_other (Map.empty :: 8 word memory) default_ctor = Inl Null_Dereference
   \<and> \<not> completes (view CT_other (Map.empty :: 8 word memory) default_ctor)
   \<and> \<not> completes (string CT_other (Map.empty :: 8 word memory) default_ctor)
   \<and> \<not> completes (operator_lt CT_other (Map.empty :: 8 word memory) default_ctor default_ctor)
   \<and> \<not> completes (end_it CT_other (Map.empty :: 8 word memory) default_ctor)
   \<and> view CT_char (Map.empty :: 8 word memory) default_ctor
       = Inr \<lparr>sv_data = Ptr Empty_Literal 0, sv_size = 0\<rparr>"
  by (simp add: view_def string_def basic_string_from_def basic_string_view_from_def
      char_traits_length_def c_str_def operator_lt_def with_compare_def with_views_def
      end_it_def member_viable_def end_cv_def length_cv_def c_str_cv_def
      default_ctor_def empty_string_def is_null_def completes_def
      length_loop.simps[of _ Null] length_loop.simps[of _ "Ptr Empty_Literal 0"])

subsection \<open>The default-constructed view\<close>

text \<open>
  C3. A default-constructed view has \<open>is_null()\<close> true and boolean conversion false, its
  owned copy is the empty string, its iteration yields no character, and \<^verbatim>\<open>c_str()\<close> is the
  non-null pointer to the static empty string for \<^verbatim>\<open>char\<close>, \<^verbatim>\<open>wchar_t\<close>, \<^verbatim>\<open>char8_t\<close>, \<^verbatim>\<open>char16_t\<close>,
  \<^verbatim>\<open>char32_t\<close> and the null pointer for any other character type.

  The code gives the \<open>is_null()\<close> and \<^verbatim>\<open>c_str()\<close> parts. For \<^verbatim>\<open>unsigned char\<close> the owned copy
  is not the empty string: \<^verbatim>\<open>string()\<close> constructs the \<^verbatim>\<open>basic_string\<close> from the null pointer
  (for \<^verbatim>\<open>char\<close> it is the empty string). The iteration is ill-formed for both.
\<close>

theorem string_of_absent_other_faults:
  "is_null default_ctor
   \<and> c_str CT_other default_ctor = Null
   \<and> string CT_other (Map.empty :: 8 word memory) default_ctor = Inl Null_Dereference
   \<and> string CT_other (Map.empty :: 8 word memory) default_ctor \<noteq> Inr []
   \<and> string CT_char (Map.empty :: 8 word memory) default_ctor = Inr []
   \<and> iterate CT_other (Map.empty :: 8 word memory) default_ctor = Inl Ill_Formed
   \<and> iterate CT_char (Map.empty :: 8 word memory) default_ctor = Inl Ill_Formed"
  by (simp add: string_def basic_string_from_def char_traits_length_def c_str_def
      iterate_def end_it_def member_viable_def end_cv_def length_cv_def c_str_cv_def
      default_ctor_def empty_string_def is_null_def
      length_loop.simps[of _ Null] length_loop.simps[of _ "Ptr Empty_Literal 0"])

subsection \<open>Owned copy and non-owning view of a buffer\<close>

text \<open>
  C4. A view constructed from a pointer into a live buffer, \<open>n\<close> characters before the
  first terminator: \<open>string()\<close> is a copy of exactly these \<open>n\<close> characters, and \<open>view()\<close>
  is the pointer with length \<open>n\<close>, the scan length. For every character type.
\<close>

theorem string_and_view_of_buffer:
  assumes "m b = Some cs" and "i + n < length cs" and "cs ! (i + n) = 0"
    and "0 \<notin> set (take n (drop i cs))"
  shows "string k m (from_pointer (Ptr (Buffer b) i)) = Inr (take n (drop i cs))
       \<and> view k m (from_pointer (Ptr (Buffer b) i))
           = Inr \<lparr>sv_data = Ptr (Buffer b) i, sv_size = n\<rparr>"
proof -
  have c: "c_str k (from_pointer (Ptr (Buffer b) i)) = Ptr (Buffer b) i"
    by (simp add: c_str_def from_pointer_def)
  have "cstring_at m (c_str k (from_pointer (Ptr (Buffer b) i))) (take n (drop i cs))"
    unfolding c using assms by (rule buffer_cstring_at)
  from string_cstring[OF this] view_cstring[OF this] assms(2) show ?thesis
    by (simp add: c min_absorb2)
qed

theorem string_and_view_of_buffer_witness:
  "string CT_char [0 \<mapsto> [104, 105, 0, 120 :: 8 word]] (from_pointer (Ptr (Buffer 0) 0))
     = Inr [104, 105]
   \<and> view CT_char [0 \<mapsto> [104, 105, 0, 120 :: 8 word]] (from_pointer (Ptr (Buffer 0) 0))
     = Inr \<lparr>sv_data = Ptr (Buffer 0) 0, sv_size = 2\<rparr>"
  using string_and_view_of_buffer[of "[0 \<mapsto> [104, 105, 0, 120 :: 8 word]]" 0
      "[104, 105, 0, 120]" 0 2 CT_char]
  by simp

subsection \<open>Comparison\<close>

text \<open>
  C5. Equality and ordering of two views are determined by the character sequences
  they reference, not by the pointers; a view with an absent reference compares as the
  empty string; the operators agree with the lexicographic order of the sequences.

  The code does not keep the absent part. For \<^verbatim>\<open>unsigned char\<close>, comparing the
  default-constructed view with a view of an empty buffer reads through the null
  pointer, for \<^verbatim>\<open>==\<close>, \<^verbatim>\<open><\<close> and \<^verbatim>\<open><=>\<close> alike; for \<^verbatim>\<open>char\<close> the two compare equal.
\<close>

theorem compare_absent_other_faults:
  "operator_eq CT_other [0 \<mapsto> [0 :: 8 word]] default_ctor (from_pointer (Ptr (Buffer 0) 0))
     = Inl Null_Dereference
   \<and> operator_lt CT_other [0 \<mapsto> [0 :: 8 word]] default_ctor (from_pointer (Ptr (Buffer 0) 0))
     = Inl Null_Dereference
   \<and> operator_three_way CT_other [0 \<mapsto> [0 :: 8 word]] default_ctor
       (from_pointer (Ptr (Buffer 0) 0)) = Inl Null_Dereference
   \<and> operator_eq CT_char [0 \<mapsto> [0 :: 8 word]] default_ctor (from_pointer (Ptr (Buffer 0) 0))
     = Inr True
   \<and> operator_lt CT_char [0 \<mapsto> [0 :: 8 word]] default_ctor (from_pointer (Ptr (Buffer 0) 0))
     = Inr False
   \<and> operator_three_way CT_char [0 \<mapsto> [0 :: 8 word]] default_ctor
       (from_pointer (Ptr (Buffer 0) 0)) = Inr SO_equal"
  by (simp add: operator_eq_def operator_lt_def operator_three_way_def with_compare_def
      with_views_def view_def basic_string_view_from_def char_traits_length_def c_str_def
      sv_equal_def sv_three_way_def sv_compare_def compare_chars_def ordering_of_def
      default_ctor_def from_pointer_def empty_string_def length_loop.simps[of _ Null]
      length_loop.simps[of _ "Ptr Empty_Literal 0"] length_loop.simps[of _ "Ptr (Buffer 0) 0"])

subsection \<open>Iteration\<close>

text \<open>
  C6. For every view over a valid null-terminated buffer, iterating from \<^verbatim>\<open>begin()\<close> to
  \<^verbatim>\<open>end()\<close> yields exactly the characters before the first terminator, in order, \<^verbatim>\<open>end()\<close>
  being found by a scan at each request; a view with an absent reference iterates as
  empty.

  The code does not provide the iteration. The buffer below holds \<^verbatim>\<open>"abc"\<close>, \<^verbatim>\<open>string()\<close>
  returns it and \<^verbatim>\<open>begin()\<close> points at it, but the call of \<^verbatim>\<open>length()\<close> in \<^verbatim>\<open>end()\<close> is not
  viable: \<^verbatim>\<open>end()\<close> and the iteration are ill-formed, for this view and for the absent one.
\<close>

theorem end_is_ill_formed:
  "cstring_at [0 \<mapsto> [97, 98, 99, 0 :: 8 word]] (Ptr (Buffer 0) 0) [97, 98, 99]
   \<and> string CT_char [0 \<mapsto> [97, 98, 99, 0 :: 8 word]] (from_pointer (Ptr (Buffer 0) 0))
       = Inr [97, 98, 99]
   \<and> begin_it CT_char (from_pointer (Ptr (Buffer 0) 0)) = Ptr (Buffer 0) 0
   \<and> \<not> member_viable end_cv length_cv
   \<and> end_it CT_char [0 \<mapsto> [97, 98, 99, 0 :: 8 word]] (from_pointer (Ptr (Buffer 0) 0))
       = Inl Ill_Formed
   \<and> iterate CT_char [0 \<mapsto> [97, 98, 99, 0 :: 8 word]] (from_pointer (Ptr (Buffer 0) 0))
       = Inl Ill_Formed
   \<and> iterate CT_char [0 \<mapsto> [97, 98, 99, 0 :: 8 word]] default_ctor = Inl Ill_Formed"
proof -
  let ?m = "[0 \<mapsto> [97, 98, 99, 0 :: 8 word]]"
  have c: "cstring_at ?m (Ptr (Buffer 0) 0) [97, 98, 99]"
    by (simp add: cstring_at_def)
  then have "cstring_at ?m (c_str CT_char (from_pointer (Ptr (Buffer 0) 0))) [97, 98, 99]"
    by (simp add: c_str_def from_pointer_def)
  from string_cstring[OF this] c show ?thesis
    by (simp add: iterate_def end_it_def member_viable_def end_cv_def length_cv_def
        begin_it_def c_str_def from_pointer_def)
qed

subsection \<open>Absent reference and empty buffer\<close>

text \<open>
  C9. A default-constructed view and a view constructed from a non-null pointer to an
  immediately terminated buffer are indistinguishable under comparison, owned copy and
  iteration, both behaving as the empty string, yet differ on \<open>is_null()\<close> and the boolean
  conversion.

  The code keeps the difference on \<open>is_null()\<close> and the boolean conversion. For
  \<^verbatim>\<open>unsigned char\<close> it tells the two views apart elsewhere too: \<^verbatim>\<open>string()\<close> returns the empty
  string for the view of the empty buffer and reads through the null pointer for the
  default-constructed one, and comparing the two reads through it whichever operand the
  default-constructed view is, while the view of the empty buffer equals itself. For
  \<^verbatim>\<open>char\<close> the owned copy is empty and the two compare equal in both orders.
\<close>

theorem absent_other_differs_from_empty_buffer:
  "string CT_other [0 \<mapsto> [0 :: 8 word]] default_ctor = Inl Null_Dereference
   \<and> string CT_other [0 \<mapsto> [0 :: 8 word]] (from_pointer (Ptr (Buffer 0) 0)) = Inr []
   \<and> operator_eq CT_other [0 \<mapsto> [0 :: 8 word]] default_ctor (from_pointer (Ptr (Buffer 0) 0))
       = Inl Null_Dereference
   \<and> operator_eq CT_other [0 \<mapsto> [0 :: 8 word]] (from_pointer (Ptr (Buffer 0) 0)) default_ctor
       = Inl Null_Dereference
   \<and> operator_eq CT_other [0 \<mapsto> [0 :: 8 word]] (from_pointer (Ptr (Buffer 0) 0))
       (from_pointer (Ptr (Buffer 0) 0)) = Inr True
   \<and> is_null default_ctor \<and> \<not> is_null (from_pointer (Ptr (Buffer 0) 0))
   \<and> \<not> operator_bool default_ctor \<and> operator_bool (from_pointer (Ptr (Buffer 0) 0))
   \<and> string CT_char [0 \<mapsto> [0 :: 8 word]] default_ctor = Inr []
   \<and> operator_eq CT_char [0 \<mapsto> [0 :: 8 word]] default_ctor (from_pointer (Ptr (Buffer 0) 0))
       = Inr True
   \<and> operator_eq CT_char [0 \<mapsto> [0 :: 8 word]] (from_pointer (Ptr (Buffer 0) 0)) default_ctor
       = Inr True"
  by (simp add: string_def basic_string_from_def operator_eq_def with_views_def view_def
      basic_string_view_from_def char_traits_length_def c_str_def
      sv_equal_def sv_compare_def compare_chars_def is_null_def operator_bool_def
      default_ctor_def from_pointer_def empty_string_def length_loop.simps[of _ Null]
      length_loop.simps[of _ "Ptr Empty_Literal 0"] length_loop.simps[of _ "Ptr (Buffer 0) 0"])

subsection \<open>The comparison operators as a total order\<close>

text \<open>
  C10. For any two views over valid buffers, or absent, exactly one of \<^verbatim>\<open>a < b\<close>,
  \<^verbatim>\<open>a == b\<close>, \<^verbatim>\<open>a > b\<close> holds, \<^verbatim>\<open><=\<close>, \<^verbatim>\<open>>=\<close> and \<^verbatim>\<open>!=\<close> are the negations of \<^verbatim>\<open>>\<close>, \<^verbatim>\<open><\<close> and \<^verbatim>\<open>==\<close>, and
  equality is reflexive, symmetric and transitive.

  The code does not keep this for absent views of \<^verbatim>\<open>unsigned char\<close>: comparing the
  default-constructed view with itself, each of the six operators reads through the
  null pointer, so none of \<^verbatim>\<open><\<close>, \<^verbatim>\<open>==\<close>, \<^verbatim>\<open>>\<close> holds and equality is not reflexive. For \<^verbatim>\<open>char\<close>
  the view equals itself.
\<close>

theorem equality_absent_other_faults:
  "operator_eq CT_other (Map.empty :: 8 word memory) default_ctor default_ctor
     = Inl Null_Dereference
   \<and> operator_lt CT_other (Map.empty :: 8 word memory) default_ctor default_ctor
     = Inl Null_Dereference
   \<and> operator_gt CT_other (Map.empty :: 8 word memory) default_ctor default_ctor
     = Inl Null_Dereference
   \<and> operator_le CT_other (Map.empty :: 8 word memory) default_ctor default_ctor
     = Inl Null_Dereference
   \<and> operator_ge CT_other (Map.empty :: 8 word memory) default_ctor default_ctor
     = Inl Null_Dereference
   \<and> operator_ne CT_other (Map.empty :: 8 word memory) default_ctor default_ctor
     = Inl Null_Dereference
   \<and> operator_eq CT_char (Map.empty :: 8 word memory) default_ctor default_ctor = Inr True
   \<and> operator_lt CT_char (Map.empty :: 8 word memory) default_ctor default_ctor = Inr False
   \<and> operator_gt CT_char (Map.empty :: 8 word memory) default_ctor default_ctor = Inr False"
  by (simp add: operator_eq_def operator_ne_def operator_lt_def operator_le_def operator_gt_def
      operator_ge_def with_compare_def
      with_views_def view_def basic_string_view_from_def char_traits_length_def c_str_def
      sv_equal_def sv_compare_def compare_chars_def
      default_ctor_def empty_string_def length_loop.simps[of _ Null]
      length_loop.simps[of _ "Ptr Empty_Literal 0"])

end
